theory Spec2Isabelle
  imports Main "HOL-Library.AList" "HOL-Library.Sublist"
begin

section \<open>The Solid generator of Mitosis\<close>

text \<open>
  A shallow embedding of \<^verbatim>\<open>packages/core/src/generators/solid/index.ts\<close>: the tree pass
  \<^verbatim>\<open>processDynamicComponents\<close>, the class composition \<^verbatim>\<open>collectClassString\<close>, the
  serializer \<^verbatim>\<open>blockToSolid\<close>, the provider wrapping \<^verbatim>\<open>addProviderComponents\<close> and the
  assembly in \<^verbatim>\<open>componentToSolid\<close>.

  JavaScript strings are modelled as \<^typ>\<open>string\<close> (code units below 256), objects used as dictionaries
  as association lists in insertion order (the order of \<^verbatim>\<open>for ... in\<close> for keys that are
  not integers), \<^verbatim>\<open>delete obj[k]\<close> as \<^const>\<open>AList.delete\<close> and \<^verbatim>\<open>obj[k] = v\<close> as
  \<^const>\<open>AList.update\<close> (an existing key keeps its place, a new key goes last). In-place
  mutation of a node is explicit state passing: a function that mutates its argument
  returns the updated node next to its result.
\<close>

subsection \<open>JavaScript strings\<close>

text \<open>A string is truthy when it is not empty.\<close>

definition truthy :: "string \<Rightarrow> bool" where
  "truthy s = (s \<noteq> [])"

text \<open>\<^verbatim>\<open>Array.prototype.join\<close>.\<close>

fun join :: "string \<Rightarrow> string list \<Rightarrow> string" where
  "join sep [] = []"
| "join sep [x] = x"
| "join sep (x # y # ys) = x @ sep @ join sep (y # ys)"

text \<open>
  \<^verbatim>\<open>String.prototype.trim\<close> strips white space and line terminators: of the code units
  below 256 these are tab, line feed, vertical tab, form feed, carriage return, space and
  the no-break space U+00A0.
\<close>

definition isWhiteSpace :: "char \<Rightarrow> bool" where
  "isWhiteSpace c =
     (c \<in> set [CHR 0x09, CHR 0x0A, CHR 0x0B, CHR 0x0C, CHR 0x0D, CHR 0x20, CHR 0xA0])"

definition trim :: "string \<Rightarrow> string" where
  "trim s = rev (dropWhile isWhiteSpace (rev (dropWhile isWhiteSpace s)))"

text \<open>\<^verbatim>\<open>String.prototype.includes\<close> for a one-character needle, and \<^verbatim>\<open>startsWith\<close>.\<close>

definition includesChar :: "string \<Rightarrow> char \<Rightarrow> bool" where
  "includesChar s c = (c \<in> set s)"

definition startsWith :: "string \<Rightarrow> string \<Rightarrow> bool" where
  "startsWith s p = (take (length p) s = p)"

text \<open>The decimal numeral of an array index, as a template literal prints it.\<close>

definition digit :: "nat \<Rightarrow> char" where
  "digit d = ''0123456789'' ! d"

fun string_of_nat :: "nat \<Rightarrow> string" where
  "string_of_nat n =
     (if n < 10 then [digit n] else string_of_nat (n div 10) @ [digit (n mod 10)])"

declare string_of_nat.simps [simp del]

text \<open>A template literal prints an absent value as \<^verbatim>\<open>undefined\<close>.\<close>

definition template :: "string option \<Rightarrow> string" where
  "template v = (case v of None \<Rightarrow> ''undefined'' | Some s \<Rightarrow> s)"

subsection \<open>The intermediate representation\<close>

text \<open>
  A binding \<^verbatim>\<open>{ code, arguments?, type? }\<close>; the only value of \<^verbatim>\<open>type\<close> the generator
  looks at is \<^verbatim>\<open>'spread'\<close>.
\<close>

record binding =
  code :: string
  arguments :: "string list option"
  btype :: "string option"

record scope =
  forName :: "string option"
  indexName :: "string option"

text \<open>
  A node: its tag name, the literal properties, the bindings, the children, the
  alternate subtree \<^verbatim>\<open>meta.else\<close> and the loop scope.
\<close>

datatype node = MitosisNode
  (name: string)
  (properties: "(string \<times> string) list")
  (bindings: "(string \<times> binding) list")
  (children: "node list")
  (meta_else: "node option")
  (scope: scope)

datatype stylesType = StyledComponents | StyleTag

text \<open>The options after \<^verbatim>\<open>mergeOptions(DEFAULT_OPTIONS, passedOptions)\<close>.\<close>

record options =
  stylesType :: stylesType
  prettier :: bool

definition DEFAULT_OPTIONS :: options where
  "DEFAULT_OPTIONS = \<lparr>stylesType = StyledComponents, prettier = True\<rparr>"

subsection \<open>Class composition\<close>

text \<open>
  The first block of \<^verbatim>\<open>collectClassString\<close>: a truthy \<^verbatim>\<open>class\<close> property, then a truthy
  \<^verbatim>\<open>className\<close> property, is pushed and deleted.
\<close>

definition takeStaticClass :: "string \<Rightarrow> string list \<times> node \<Rightarrow> string list \<times> node" where
  "takeStaticClass key = (\<lambda>(staticClasses, json).
     (case map_of (properties json) key of
        Some v \<Rightarrow>
          if truthy v
          then (staticClasses @ [v],
                MitosisNode (name json) (AList.delete key (properties json)) (bindings json)
                  (children json) (meta_else json) (scope json))
          else (staticClasses, json)
      | None \<Rightarrow> (staticClasses, json)))"

text \<open>
  The second block: the code of a \<^verbatim>\<open>class\<close> binding, then of a \<^verbatim>\<open>className\<close> binding, is
  pushed and the binding deleted (the code of a binding is always a string).
\<close>

definition takeDynamicClass :: "string \<Rightarrow> string list \<times> node \<Rightarrow> string list \<times> node" where
  "takeDynamicClass key = (\<lambda>(dynamicClasses, json).
     (case map_of (bindings json) key of
        Some b \<Rightarrow>
          (dynamicClasses @ [code b],
           MitosisNode (name json) (properties json) (AList.delete key (bindings json))
             (children json) (meta_else json) (scope json))
      | None \<Rightarrow> (dynamicClasses, json)))"

text \<open>
  The \<^verbatim>\<open>css\<close> binding: pushed as a call of the \<^verbatim>\<open>css\<close> helper when its trimmed code is
  longer than 4 characters and the styles are styled-components; deleted in every case.
\<close>

definition takeCss :: "options \<Rightarrow> string list \<times> node \<Rightarrow> string list \<times> node" where
  "takeCss options = (\<lambda>(dynamicClasses, json).
     (let pushed =
        (case map_of (bindings json) ''css'' of
           Some b \<Rightarrow>
             if length (trim (code b)) > 4 \<and> stylesType options = StyledComponents
             then dynamicClasses @ [''css('' @ code b @ '')'']
             else dynamicClasses
         | None \<Rightarrow> dynamicClasses)
      in (pushed,
          MitosisNode (name json) (properties json) (AList.delete ''css'' (bindings json))
            (children json) (meta_else json) (scope json))))"

definition staticClassesOf :: "node \<Rightarrow> string list \<times> node" where
  "staticClassesOf json = takeStaticClass ''className'' (takeStaticClass ''class'' ([], json))"

definition dynamicClassesOf :: "options \<Rightarrow> node \<Rightarrow> string list \<times> node" where
  "dynamicClassesOf options json =
     takeCss options (takeDynamicClass ''className'' (takeDynamicClass ''class'' ([], json)))"

text \<open>
  \<^verbatim>\<open>collectClassString\<close>: the value of the class attribute (\<^verbatim>\<open>null\<close> is \<^const>\<open>None\<close>) and the
  node as the function leaves it.
\<close>

definition collectClassString :: "node \<Rightarrow> options \<Rightarrow> string option \<times> node" where
  \<open>collectClassString json options =
     (let (staticClasses, json1) = staticClassesOf json;
          (dynamicClasses, json2) = dynamicClassesOf options json1;
          staticClassesString = join '' '' staticClasses;
          dynamicClassesString = join '' + ' ' + '' dynamicClasses;
          hasStaticClasses = (staticClasses \<noteq> []);
          hasDynamicClasses = (dynamicClasses \<noteq> [])
      in (if hasStaticClasses \<and> \<not> hasDynamicClasses
            then Some (''"'' @ staticClassesString @ ''"'')
          else if hasDynamicClasses \<and> \<not> hasStaticClasses
            then Some (''{'' @ dynamicClassesString @ ''}'')
          else if hasDynamicClasses \<and> hasStaticClasses
            then Some (''{"'' @ staticClassesString @ '' " + '' @ dynamicClassesString @ ''}'')
          else None,
          json2))\<close>

subsection \<open>Components and the collaborators of the generator\<close>

type_synonym mitosisState = "(string \<times> string) list"

text \<open>An entry of \<^verbatim>\<open>context.get\<close> or \<^verbatim>\<open>context.set\<close>: \<^verbatim>\<open>{ name, value? }\<close>.\<close>

record contextInfo =
  contextName :: string
  contextValue :: "mitosisState option"

text \<open>An entry of \<^verbatim>\<open>hooks.onUpdate\<close>: \<^verbatim>\<open>{ code, deps? }\<close>.\<close>

record onUpdateHook =
  hookCode :: string
  deps :: "string option"

text \<open>
  The component: \<^verbatim>\<open>name\<close>, \<^verbatim>\<open>children\<close>, \<^verbatim>\<open>context.get\<close>, \<^verbatim>\<open>context.set\<close>, the code of
  \<^verbatim>\<open>hooks.onMount\<close> when the hook is there, and \<^verbatim>\<open>hooks.onUpdate\<close> when the array is
  there.
\<close>

record component =
  componentName :: string
  componentChildren :: "node list"
  contextGet :: "(string \<times> contextInfo) list"
  contextSet :: "(string \<times> contextInfo) list"
  onMount :: "string option"
  onUpdate :: "onUpdateHook list option"

text \<open>What \<^verbatim>\<open>getState\<close> returns: \<^verbatim>\<open>{ str, import: { solidjs, store } }\<close>.\<close>

record stateResult =
  stateStr :: string
  importSolidjs :: "string list"
  importStore :: "string list"

text \<open>What ends a compilation: an error raised by a plugin or by the formatter.\<close>

datatype error = PluginError | FormatError

text \<open>
  The functions the generator imports from other files of the repository and from
  libraries. Their code is not part of the file, so they are parameters of the model:
  \<^verbatim>\<open>checkIsForNode\<close>, \<^verbatim>\<open>filterEmptyTextNodes\<close>, the set \<^verbatim>\<open>selfClosingTags\<close>, the key-casing
  transform of a style expression (\<^verbatim>\<open>babelTransformExpression\<close> with \<^verbatim>\<open>kebabCase\<close>),
  \<^verbatim>\<open>stringifyContextValue\<close>, \<^verbatim>\<open>hasCss\<close>, \<^verbatim>\<open>hasContext\<close>, \<^verbatim>\<open>getComponentsUsed\<close>, \<^verbatim>\<open>getState\<close>,
  \<^verbatim>\<open>getRefs\<close>, \<^verbatim>\<open>renderPreComponent\<close>, \<^verbatim>\<open>collectCss\<close> (with its hash prefix), the plugin
  stages (the plugin list with the code processor already added), \<^verbatim>\<open>stripMetaProperties\<close>,
  the \<^verbatim>\<open>dedent\<close> tag and \<^verbatim>\<open>format\<close>. The plugin stages and \<^verbatim>\<open>stripMetaProperties\<close> return
  the component they were given, and \<^verbatim>\<open>collectCss\<close> walks the tree it collects from, so
  these return the component; the others only read their argument. The code plugin
  stages and \<^verbatim>\<open>format\<close> return the text or the error they raise; the JSON stages stand for
  plugins that return.
\<close>

record helpers =
  checkIsForNode :: "node \<Rightarrow> bool"
  filterEmptyTextNodes :: "node \<Rightarrow> bool"
  selfClosingTags :: "string list"
  styleToKebab :: "string \<Rightarrow> string"
  stringifyContextValue :: "mitosisState \<Rightarrow> string"
  hasCss :: "component \<Rightarrow> bool"
  hasContext :: "component \<Rightarrow> bool"
  getComponentsUsed :: "component \<Rightarrow> string list"
  getState :: "component \<Rightarrow> options \<Rightarrow> stateResult option"
  getRefs :: "component \<Rightarrow> string list"
  renderPreComponent :: "component \<Rightarrow> string"
  collectCss :: "component \<Rightarrow> string \<times> component"
  runPreJsonPlugins :: "component \<Rightarrow> component"
  runPostJsonPlugins :: "component \<Rightarrow> component"
  stripMetaProperties :: "component \<Rightarrow> component"
  dedent :: "string \<Rightarrow> string"
  runPreCodePlugins :: "string \<Rightarrow> error + string"
  format :: "string \<Rightarrow> error + string"
  runPostCodePlugins :: "string \<Rightarrow> error + string"

subsection \<open>Dynamic components\<close>

text \<open>
  \<^verbatim>\<open>traverse(json).forEach\<close> visits every node of the tree, a node before its children and
  its \<^verbatim>\<open>meta.else\<close> subtree. A node whose name includes a dot gets the binding
  \<^verbatim>\<open>component\<close> with its name as code and the name \<^verbatim>\<open>Dynamic\<close>; \<^verbatim>\<open>found\<close> is set when that
  happens anywhere. The first component of the result is whether \<^verbatim>\<open>found\<close> was set in
  the subtree.
\<close>

fun processDynamicNode :: "node \<Rightarrow> bool \<times> node" where
  "processDynamicNode (MitosisNode nm props binds kids els sc) =
     (let hit = includesChar nm CHR ''.'';
          binds' = (if hit
                    then AList.update ''component''
                           \<lparr>code = nm, arguments = None, btype = None\<rparr> binds
                    else binds);
          nm' = (if hit then ''Dynamic'' else nm);
          kids' = map processDynamicNode kids;
          els' = map_option processDynamicNode els
      in (hit \<or> list_ex fst kids' \<or> (case els' of Some r \<Rightarrow> fst r | None \<Rightarrow> False),
          MitosisNode nm' props binds' (map snd kids') (map_option snd els') sc))"

definition processDynamicComponents :: "component \<Rightarrow> bool \<times> component" where
  "processDynamicComponents json =
     (let visited = map processDynamicNode (componentChildren json)
      in (list_ex fst visited, json\<lparr>componentChildren := map snd visited\<rparr>))"

subsection \<open>Context\<close>

definition getContextString :: "component \<Rightarrow> string" where
  \<open>getContextString component =
     concat (map (\<lambda>(key, info).
       ''\<newline>      const '' @ key @ '' = useContext('' @ contextName info @ '');\<newline>    '')
       (contextGet component))\<close>

text \<open>
  Modelled from the spec: \<^verbatim>\<open>createMitosisNode\<close> is defined in a helper file outside the
  generator. It builds a node of the node type from the fields the caller gives, every
  other field empty; here the caller gives the name, the children and, when the context
  has a value, the bindings.
\<close>

definition createMitosisNode :: "string \<Rightarrow> node list \<Rightarrow> (string \<times> binding) list \<Rightarrow> node" where
  "createMitosisNode nm kids binds =
     MitosisNode nm [] binds kids None \<lparr>forName = None, indexName = None\<rparr>"

definition providerBindings :: "helpers \<Rightarrow> contextInfo \<Rightarrow> (string \<times> binding) list" where
  "providerBindings h info =
     (case contextValue info of
        Some v \<Rightarrow> [(''value'', \<lparr>code = stringifyContextValue h v,
                                arguments = None, btype = None\<rparr>)]
      | None \<Rightarrow> [])"

text \<open>One round of the loop over \<^verbatim>\<open>json.context.set\<close>.\<close>

definition addProvider :: "helpers \<Rightarrow> component \<Rightarrow> string \<times> contextInfo \<Rightarrow> component" where
  "addProvider h json = (\<lambda>(key, info).
     json\<lparr>componentChildren :=
       [createMitosisNode (contextName info @ ''.Provider'') (componentChildren json)
          (providerBindings h info)]\<rparr>)"

definition addProviderComponents :: "helpers \<Rightarrow> component \<Rightarrow> component" where
  "addProviderComponents h json = foldl (addProvider h) json (contextSet json)"

subsection \<open>Serializing a node\<close>

text \<open>One round of the loop over the bindings in \<^verbatim>\<open>blockToSolid\<close>.\<close>

definition bindingToSolid :: "helpers \<Rightarrow> string \<Rightarrow> string \<times> binding \<Rightarrow> string" where
  \<open>bindingToSolid h nodeName = (\<lambda>(key, b).
     (let cusArg = (case arguments b of None \<Rightarrow> [''event''] | Some args \<Rightarrow> args)
      in if \<not> truthy (code b) then []
         else if btype b = Some ''spread'' then '' {...('' @ code b @ '')} ''
         else if startsWith key ''on'' then
           (let useKey = (if key = ''onChange'' \<and> nodeName = ''input'' then ''onInput'' else key)
            in '' '' @ useKey @ ''={('' @ join '','' cusArg @ '') => '' @ code b @ ''} '')
         else
           (let useValue = (if key = ''style'' then styleToKebab h (code b) else code b)
            in '' '' @ key @ ''={'' @ useValue @ ''} '')))\<close>

definition propertyToSolid :: "string \<times> string \<Rightarrow> string" where
  \<open>propertyToSolid = (\<lambda>(key, value). '' '' @ key @ ''="'' @ value @ ''" '')\<close>

text \<open>The class attribute \<^verbatim>\<open>blockToSolid\<close> adds for the result of \<^verbatim>\<open>collectClassString\<close>.\<close>

definition classAttribute :: "string option \<Rightarrow> string" where
  "classAttribute classString =
     (case classString of
        Some c \<Rightarrow> if truthy c then '' class='' @ c @ '' '' else []
      | None \<Rightarrow> [])"

text \<open>
  \<^verbatim>\<open>blockToSolid\<close>. The \<^verbatim>\<open>component\<close> argument of the source is only handed on to the
  recursive calls and is left out. An array printed in a template literal is joined
  with commas. The properties and bindings are read after \<^verbatim>\<open>collectClassString\<close> has
  changed them; the name and the children are not changed by it.
\<close>

function blockToSolid :: "helpers \<Rightarrow> options \<Rightarrow> node \<Rightarrow> string" where
  \<open>blockToSolid h options json =
     (if (case map_of (properties json) ''_text'' of Some t \<Rightarrow> truthy t | None \<Rightarrow> False)
      then the (map_of (properties json) ''_text'')
      else if (case map_of (bindings json) ''_text'' of Some b \<Rightarrow> truthy (code b) | None \<Rightarrow> False)
      then ''{'' @ code (the (map_of (bindings json) ''_text'')) @ ''}''
      else if checkIsForNode h json then
        (let needsWrapper = (length (children json) \<noteq> 1)
         in ''<For each={'' @ template (map_option code (map_of (bindings json) ''each'')) @ ''}>\<newline>''
            @ ''    {('' @ template (forName (scope json)) @ '', _index) => {\<newline>''
            @ ''      const ''
            @ (case indexName (scope json) of
                 Some i \<Rightarrow> if truthy i then i else ''index''
               | None \<Rightarrow> ''index'')
            @ '' = _index();\<newline>''
            @ ''      return '' @ (if needsWrapper then ''<>'' else [])
            @ join '','' (map (blockToSolid h options)
                            (filter (filterEmptyTextNodes h) (children json)))
            @ ''}}\<newline>''
            @ ''      '' @ (if needsWrapper then ''</>'' else []) @ ''\<newline>''
            @ ''    </For>'')
      else
        (let str = (if name json = ''Fragment'' then ''<'' else ''<'' @ name json @ '' '');
             str = str @
               (if name json = ''Show''
                then (case meta_else json of
                        Some e \<Rightarrow> ''fallback={'' @ blockToSolid h options e @ ''}''
                      | None \<Rightarrow> [])
                else []);
             (classString, json') = collectClassString json options;
             str = str @ classAttribute classString;
             str = str @ concat (map propertyToSolid (properties json'));
             str = str @ concat (map (bindingToSolid h (name json)) (bindings json'))
         in if name json \<in> set (selfClosingTags h) then str @ '' />''
            else str @ ''>''
              @ join ''\<newline>'' (map (blockToSolid h options)
                                 (filter (filterEmptyTextNodes h) (children json)))
              @ (if name json = ''Fragment'' then ''</>'' else ''</'' @ name json @ ''>'')))\<close>
  by pat_completeness auto
termination
proof -
  have child: "size x < size json" if "x \<in> set (children json)" for x json :: node
    using that
    by (cases json) (auto simp: less_Suc_eq_le intro!: trans_le_add1 size_list_estimation')
  have alternate: "size e < size json" if "meta_else json = Some e" for e json :: node
    using that by (cases json) auto
  show ?thesis
  proof (relation "measure (\<lambda>(h, options, json). size json)", goal_cases)
    case 1
    show ?case by simp
  next
    case 2
    then show ?case by (simp add: child)
  next
    case 3
    then show ?case by (simp add: alternate)
  next
    case 4
    then show ?case by (simp add: child)
  qed
qed

subsection \<open>Assembling the module\<close>

text \<open>
  \<^verbatim>\<open>uniq(S.Eq)\<close> of fp-ts: an element is pushed when the output does not hold it yet, so
  the first occurrence stays.
\<close>

definition uniq :: "string list \<Rightarrow> string list" where
  "uniq as = foldl (\<lambda>out a. if a \<in> set out then out else out @ [a]) [] as"

text \<open>
  The array of candidate symbols, entries that are \<^verbatim>\<open>undefined\<close> as \<^const>\<open>None\<close>, before
  \<^verbatim>\<open>.filter(checkIsDefined)\<close>; \<^verbatim>\<open>json\<close> is the component after the dynamic-component pass.
\<close>

definition importCandidates :: "helpers \<Rightarrow> options \<Rightarrow> component \<Rightarrow> string option list" where
  "importCandidates h options json =
     [if hasContext h json then Some ''useContext'' else None,
      if ''Show'' \<in> set (getComponentsUsed h json) then Some ''Show'' else None,
      if ''For'' \<in> set (getComponentsUsed h json) then Some ''For'' else None,
      if (case onMount json of Some c \<Rightarrow> truthy c | None \<Rightarrow> False) then Some ''onMount'' else None]
     @ map Some (if (case onUpdate json of Some hooks \<Rightarrow> hooks \<noteq> [] | None \<Rightarrow> False)
                 then [''on'', ''createEffect''] else [])
     @ map Some (case getState h json options of Some st \<Rightarrow> importSolidjs st | None \<Rightarrow> [])"

definition solidJSImports :: "helpers \<Rightarrow> options \<Rightarrow> component \<Rightarrow> string list" where
  "solidJSImports h options json = uniq (List.map_filter id (importCandidates h options json))"

definition solidJSImportLine :: "string list \<Rightarrow> string" where
  \<open>solidJSImportLine symbols =
     (if length symbols > 0 then ''import { '' @ join '', '' symbols @ '' } from 'solid-js';''
      else [])\<close>

definition dynamicImportLine :: "bool \<Rightarrow> string" where
  \<open>dynamicImportLine foundDynamicComponents =
     (if \<not> foundDynamicComponents then [] else ''import { Dynamic } from 'solid-js/web';'')\<close>

definition storeImportLine :: "string list \<Rightarrow> string" where
  \<open>storeImportLine storeImports =
     (if length storeImports > 0
      then ''import { '' @ join '', '' storeImports @ '' } from 'solid-js/store';''
      else [])\<close>

definition cssImportLine :: "bool \<Rightarrow> options \<Rightarrow> string" where
  \<open>cssImportLine componentHasStyles options =
     (if \<not> componentHasStyles \<and> stylesType options = StyledComponents then []
      else ''import { css } from "solid-styled-components";'')\<close>

definition getRefsString :: "helpers \<Rightarrow> component \<Rightarrow> string" where
  \<open>getRefsString h json = join ''\<newline>'' (map (\<lambda>ref. ''let '' @ ref @ '';'') (getRefs h json))\<close>

definition onMountString :: "component \<Rightarrow> string" where
  \<open>onMountString json =
     (case onMount json of
        Some c \<Rightarrow> if \<not> truthy c then [] else ''onMount(() => { '' @ c @ '' })''
      | None \<Rightarrow> [])\<close>

text \<open>The callback of \<^verbatim>\<open>json.hooks.onUpdate.map\<close>, on the index and the hook.\<close>

definition onUpdateToSolid :: "nat \<times> onUpdateHook \<Rightarrow> string" where
  \<open>onUpdateToSolid = (\<lambda>(index, hook).
     (case deps hook of
        Some d \<Rightarrow>
          if truthy d
          then (let hookName = ''onUpdateFn_'' @ string_of_nat index
                in ''\<newline>                    function '' @ hookName @ ''() { '' @ hookCode hook @ '' };\<newline>''
                   @ ''                    createEffect(on(() => '' @ d @ '', '' @ hookName @ ''));\<newline>''
                   @ ''                  '')
          else []
      | None \<Rightarrow> []))\<close>

definition onUpdateString :: "component \<Rightarrow> string" where
  \<open>onUpdateString json =
     (case onUpdate json of
        Some hooks \<Rightarrow> join ''\<newline>'' (map onUpdateToSolid (enumerate 0 hooks))
      | None \<Rightarrow> [])\<close>

text \<open>The style block; \<^term>\<open>CHR 0x60\<close> is the backquote of the inner template literal.\<close>

definition styleTag :: "options \<Rightarrow> string option \<Rightarrow> string" where
  \<open>styleTag options css =
     (case css of
        Some c \<Rightarrow>
          if stylesType options = StyleTag \<and> truthy c \<and> length (trim c) > 4
          then ''<style jsx>{'' @ [CHR 0x60] @ c @ [CHR 0x60] @ ''}</style>''
          else []
      | None \<Rightarrow> [])\<close>

text \<open>
  The component as it reaches \<^verbatim>\<open>processDynamicComponents\<close>: cloned, through the pre-JSON
  plugins, wrapped in its providers, through the post-JSON plugins and stripped of meta
  properties.
\<close>

definition withProviders :: "helpers \<Rightarrow> component \<Rightarrow> component" where
  "withProviders h component = addProviderComponents h (runPreJsonPlugins h component)"

definition beforeDynamicPass :: "helpers \<Rightarrow> component \<Rightarrow> component" where
  "beforeDynamicPass h component =
     stripMetaProperties h (runPostJsonPlugins h (withProviders h component))"

text \<open>
  The component as the template reads it: after the dynamic-component pass and, for
  style-tag styles, after \<^verbatim>\<open>collectCss\<close>.
\<close>

definition renderedComponent :: "helpers \<Rightarrow> options \<Rightarrow> component \<Rightarrow> component" where
  "renderedComponent h options component =
     (let json = snd (processDynamicComponents (beforeDynamicPass h component))
      in if stylesType options = StyleTag then snd (collectCss h json) else json)"

text \<open>The values of the holes of the template literal of \<^verbatim>\<open>componentToSolid\<close>, in order.\<close>

record moduleParts =
  importsPart :: string
  dynamicPart :: string
  storePart :: string
  cssPart :: string
  prePart :: string
  namePart :: string
  statePart :: string
  refsPart :: string
  contextPart :: string
  mountPart :: string
  updatePart :: string
  openPart :: string
  childrenPart :: string
  stylePart :: string
  closePart :: string

text \<open>The template literal, as a function of the values of its holes.\<close>

definition moduleTemplate :: "moduleParts \<Rightarrow> string" where
  \<open>moduleTemplate p =
     ''\<newline>    '' @ importsPart p
     @ ''\<newline>    '' @ dynamicPart p
     @ ''\<newline>    '' @ storePart p
     @ ''\<newline>    '' @ cssPart p
     @ ''\<newline>    '' @ prePart p
     @ ''\<newline>\<newline>    function '' @ namePart p @ ''(props) {\<newline>''
     @ ''      '' @ statePart p
     @ ''\<newline>      \<newline>      '' @ refsPart p
     @ ''\<newline>      '' @ contextPart p
     @ ''\<newline>\<newline>      '' @ mountPart p
     @ ''\<newline>      '' @ updatePart p
     @ ''\<newline>\<newline>      return ('' @ openPart p
     @ ''\<newline>        '' @ childrenPart p
     @ ''\<newline>        '' @ stylePart p
     @ ''\<newline>        '' @ closePart p @ '')\<newline>''
     @ ''    }\<newline>\<newline>    export default '' @ namePart p @ '';\<newline>  ''\<close>

text \<open>The text \<^verbatim>\<open>componentToSolid\<close> hands to \<^verbatim>\<open>dedent\<close>.\<close>

definition assemble :: "helpers \<Rightarrow> options \<Rightarrow> component \<Rightarrow> string" where
  \<open>assemble h options component =
     (let json = withProviders h component;
          componentHasStyles = hasCss h json;
          addWrapper = (length (filter (filterEmptyTextNodes h) (componentChildren json)) \<noteq> 1
                        \<or> stylesType options = StyleTag);
          (foundDynamicComponents, json) = processDynamicComponents (beforeDynamicPass h component);
          (css, json) = (if stylesType options = StyleTag
                         then (Some (fst (collectCss h json)), snd (collectCss h json))
                         else (None, json));
          state = getState h json options;
          storeImports = (case state of Some st \<Rightarrow> importStore st | None \<Rightarrow> [])
      in moduleTemplate
           \<lparr>importsPart = solidJSImportLine (solidJSImports h options json),
            dynamicPart = dynamicImportLine foundDynamicComponents,
            storePart = storeImportLine storeImports,
            cssPart = cssImportLine componentHasStyles options,
            prePart = renderPreComponent h json,
            namePart = componentName json,
            statePart = (case state of Some st \<Rightarrow> stateStr st | None \<Rightarrow> []),
            refsPart = getRefsString h json,
            contextPart = getContextString json,
            mountPart = onMountString json,
            updatePart = onUpdateString json,
            openPart = (if addWrapper then ''<>'' else []),
            childrenPart = join ''\<newline>'' (map (blockToSolid h options)
                              (filter (filterEmptyTextNodes h) (componentChildren json))),
            stylePart = styleTag options css,
            closePart = (if addWrapper then ''</>'' else [])\<rparr>)\<close>

text \<open>
  \<^verbatim>\<open>componentToSolid\<close>: the text goes through the pre-code plugins, through \<^verbatim>\<open>format\<close> unless
  \<^verbatim>\<open>options.prettier\<close> is \<^verbatim>\<open>false\<close>, and through the post-code plugins. A plugin may raise
  and \<^verbatim>\<open>format\<close> raises on text it cannot parse; the first error ends the compilation.
\<close>

definition componentToSolid :: "helpers \<Rightarrow> options \<Rightarrow> component \<Rightarrow> error + string" where
  "componentToSolid h options component =
     (case runPreCodePlugins h (dedent h (assemble h options component)) of
        Inl e \<Rightarrow> Inl e
      | Inr str \<Rightarrow>
          (case (if prettier options then format h str else Inr str) of
             Inl e \<Rightarrow> Inl e
           | Inr str \<Rightarrow> runPostCodePlugins h str))"

section \<open>Notions used to state the properties\<close>

subsection \<open>Class sources\<close>

text \<open>
  The static class sources of a node, in the words of the specification: the properties
  \<^verbatim>\<open>class\<close> and \<^verbatim>\<open>className\<close>, where a source is present when it holds a non-empty
  string.
\<close>

definition staticClassSources :: "node \<Rightarrow> string list" where
  "staticClassSources json =
     filter truthy (List.map_filter (map_of (properties json)) [''class'', ''className''])"

text \<open>
  The \<^verbatim>\<open>css\<close> helper applies when the styles are styled-components and the trimmed code
  of the binding is longer than 4 characters.
\<close>

definition cssHelperApplies :: "options \<Rightarrow> binding \<Rightarrow> bool" where
  "cssHelperApplies options b =
     (stylesType options = StyledComponents \<and> length (trim (code b)) > 4)"

text \<open>
  The dynamic class sources: the code of the bindings \<^verbatim>\<open>class\<close> and \<^verbatim>\<open>className\<close>, and
  the call of the \<^verbatim>\<open>css\<close> helper on the \<^verbatim>\<open>css\<close> binding when it applies.
\<close>

definition dynamicClassSources :: "options \<Rightarrow> node \<Rightarrow> string list" where
  "dynamicClassSources options json =
     map code (List.map_filter (map_of (bindings json)) [''class'', ''className''])
     @ map (\<lambda>b. ''css('' @ code b @ '')'')
         (filter (cssHelperApplies options) (List.map_filter (map_of (bindings json)) [''css'']))"

subsection \<open>Kinds of nodes\<close>

text \<open>A node that \<^verbatim>\<open>blockToSolid\<close> prints as text: its first two tests.\<close>

definition isTextNode :: "node \<Rightarrow> bool" where
  "isTextNode json =
     ((case map_of (properties json) ''_text'' of Some t \<Rightarrow> truthy t | None \<Rightarrow> False) \<or>
      (case map_of (bindings json) ''_text'' of Some b \<Rightarrow> truthy (code b) | None \<Rightarrow> False))"

text \<open>The name of the index constant of a loop: \<^verbatim>\<open>scope.indexName || 'index'\<close>.\<close>

definition indexBinding :: "node \<Rightarrow> string" where
  "indexBinding json =
     (case indexName (scope json) of
        Some i \<Rightarrow> if truthy i then i else ''index''
      | None \<Rightarrow> ''index'')"


subsection \<open>The nodes of a tree\<close>

text \<open>The nodes \<^verbatim>\<open>traverse\<close> visits below a node, the node first.\<close>

fun nodesOf :: "node \<Rightarrow> node list" where
  "nodesOf (MitosisNode nm props binds kids els sc) =
     MitosisNode nm props binds kids els sc
     # concat (map nodesOf kids) @ (case els of Some e \<Rightarrow> nodesOf e | None \<Rightarrow> [])"

definition componentNodes :: "component \<Rightarrow> node list" where
  "componentNodes json = concat (map nodesOf (componentChildren json))"

definition hasDot :: "node \<Rightarrow> bool" where
  "hasDot json = includesChar (name json) CHR ''.''"

text \<open>
  What the specification asks of the dynamic-component pass at one node: the name and
  the \<^verbatim>\<open>component\<close> binding after the pass.
\<close>

definition dynamicRewrite :: "node \<Rightarrow> string \<times> binding option" where
  "dynamicRewrite json =
     (if hasDot json
      then (''Dynamic'', Some \<lparr>code = name json, arguments = None, btype = None\<rparr>)
      else (name json, map_of (bindings json) ''component''))"

text \<open>A provider after the dynamic-component pass, as the claim about providers has it.\<close>

definition dynamicProvider :: "helpers \<Rightarrow> node list \<Rightarrow> string \<times> contextInfo \<Rightarrow> node list" where
  "dynamicProvider h kids = (\<lambda>(key, info).
     [MitosisNode ''Dynamic'' []
        (providerBindings h info
         @ [(''component'', \<lparr>code = contextName info @ ''.Provider'',
                               arguments = None, btype = None\<rparr>)])
        kids None \<lparr>forName = None, indexName = None\<rparr>])"

subsection \<open>Hooks and imports\<close>

text \<open>An \<^verbatim>\<open>onUpdate\<close> entry declares dependencies when \<^verbatim>\<open>deps\<close> is a non-empty string.\<close>

definition declaresDeps :: "onUpdateHook \<Rightarrow> bool" where
  "declaresDeps hook = (case deps hook of Some d \<Rightarrow> truthy d | None \<Rightarrow> False)"

text \<open>The effect registration of the entry at an index: a named function and the effect call.\<close>

definition effectRegistration :: "nat \<times> onUpdateHook \<Rightarrow> string" where
  \<open>effectRegistration = (\<lambda>(index, hook).
     ''\<newline>                    function onUpdateFn_'' @ string_of_nat index
     @ ''() { '' @ hookCode hook @ '' };\<newline>''
     @ ''                    createEffect(on(() => '' @ template (deps hook)
     @ '', onUpdateFn_'' @ string_of_nat index @ ''));\<newline>''
     @ ''                  '')\<close>

text \<open>
  The fragment of an entry in the words of the claim: the effect registration when the
  entry declares dependencies, nothing otherwise.
\<close>

definition hookFragment :: "nat \<times> onUpdateHook \<Rightarrow> string" where
  "hookFragment = (\<lambda>(index, hook).
     if declaresDeps hook then effectRegistration (index, hook) else [])"

text \<open>
  A component that gives the import aggregator nothing but, possibly, a mount hook: no
  context, no \<^verbatim>\<open>Show\<close>, no \<^verbatim>\<open>For\<close>, no \<^verbatim>\<open>onUpdate\<close> hook and no import asked for by the
  state module.
\<close>

definition noImportSources :: "helpers \<Rightarrow> options \<Rightarrow> component \<Rightarrow> bool" where
  "noImportSources h options json =
     (\<not> hasContext h json \<and>
      ''Show'' \<notin> set (getComponentsUsed h json) \<and>
      ''For'' \<notin> set (getComponentsUsed h json) \<and>
      (case onUpdate json of Some hooks \<Rightarrow> hooks = [] | None \<Rightarrow> True) \<and>
      (case getState h json options of Some st \<Rightarrow> importSolidjs st = [] | None \<Rightarrow> True))"

section \<open>Examples\<close>

text \<open>
  Modelled from the spec: the collaborators of the generator are defined in files that
  are not part of the generator, so the examples run on this instance of them. A for
  node carries an \<^verbatim>\<open>each\<close> binding and an item name; an empty text node is a \<^verbatim>\<open>_text\<close>
  property that is blank; the self-closing tags are the void elements of HTML; a context
  is used when \<^verbatim>\<open>context.get\<close> has an entry; the components used are the names of the
  nodes; the state module asks for nothing; there are no refs, no plugins, and
  \<^verbatim>\<open>dedent\<close> and \<^verbatim>\<open>format\<close> leave the text as it is.
\<close>

definition exampleHelpers :: helpers where
  "exampleHelpers = \<lparr>
     checkIsForNode =
       (\<lambda>json. map_of (bindings json) ''each'' \<noteq> None \<and> forName (scope json) \<noteq> None),
     filterEmptyTextNodes =
       (\<lambda>json. case map_of (properties json) ''_text'' of Some t \<Rightarrow> trim t \<noteq> [] | None \<Rightarrow> True),
     selfClosingTags = [''area'', ''base'', ''br'', ''col'', ''embed'', ''hr'', ''img'', ''input'',
                        ''link'', ''meta'', ''param'', ''source'', ''track'', ''wbr''],
     styleToKebab = (\<lambda>c. c),
     stringifyContextValue =
       (\<lambda>st. ''{'' @ join '', '' (map (\<lambda>(k, v). k @ '': '' @ v) st) @ ''}''),
     hasCss = (\<lambda>c. list_ex (\<lambda>n. map_of (bindings n) ''css'' \<noteq> None) (componentNodes c)),
     hasContext = (\<lambda>c. contextGet c \<noteq> []),
     getComponentsUsed = (\<lambda>c. map name (componentNodes c)),
     getState = (\<lambda>c opts. None),
     getRefs = (\<lambda>c. []),
     renderPreComponent = (\<lambda>c. []),
     collectCss = (\<lambda>c. ([], c)),
     runPreJsonPlugins = (\<lambda>c. c),
     runPostJsonPlugins = (\<lambda>c. c),
     stripMetaProperties = (\<lambda>c. c),
     dedent = (\<lambda>s. s),
     runPreCodePlugins = (\<lambda>s. Inr s),
     format = (\<lambda>s. Inr s),
     runPostCodePlugins = (\<lambda>s. Inr s)\<rparr>"

definition noScope :: scope where
  "noScope = \<lparr>forName = None, indexName = None\<rparr>"

definition plainBinding :: "string \<Rightarrow> binding" where
  "plainBinding c = \<lparr>code = c, arguments = None, btype = None\<rparr>"

definition element :: "string \<Rightarrow> (string \<times> string) list \<Rightarrow> (string \<times> binding) list \<Rightarrow> node" where
  "element nm props binds = MitosisNode nm props binds [] None noScope"

text \<open>Loops: one without children, one with a single text child and an index name.\<close>

definition emptyLoop :: node where
  "emptyLoop = MitosisNode ''For'' [] [(''each'', plainBinding ''items'')] [] None
     \<lparr>forName = Some ''item'', indexName = None\<rparr>"

definition oneChildLoop :: node where
  "oneChildLoop = MitosisNode ''For'' [] [(''each'', plainBinding ''items'')]
     [element ''div'' [(''_text'', ''hello'')] []] None
     \<lparr>forName = Some ''item'', indexName = Some ''i''\<rparr>"

text \<open>A loop with two children.\<close>

definition twoChildLoop :: node where
  "twoChildLoop = MitosisNode ''For'' [] [(''each'', plainBinding ''items'')]
     [element ''li'' [] [], element ''p'' [] []] None
     \<lparr>forName = Some ''item'', indexName = None\<rparr>"

text \<open>Nodes with an empty \<^verbatim>\<open>class\<close> property: with a \<^verbatim>\<open>className\<close> binding, and alone.\<close>

definition emptyClassNode :: node where
  "emptyClassNode = element ''div'' [(''class'', [])] [(''className'', plainBinding ''expr'')]"

definition onlyEmptyClassNode :: node where
  "onlyEmptyClassNode = element ''div'' [(''class'', [])] []"

text \<open>The same binding next to a \<^verbatim>\<open>class\<close> property that is not empty.\<close>

definition bothClassNode :: node where
  "bothClassNode = element ''div'' [(''class'', ''a'')] [(''className'', plainBinding ''expr'')]"

text \<open>Nodes with a \<^verbatim>\<open>css\<close> binding: an empty object, and a rule next to an \<^verbatim>\<open>id\<close> binding.\<close>

definition shortCssNode :: node where
  "shortCssNode = element ''div'' [] [(''css'', plainBinding ''{}'')]"

definition longCssNode :: node where
  "longCssNode = element ''div'' []
     [(''css'', plainBinding ''{ margin: 0 }''), (''id'', plainBinding ''props.id'')]"

text \<open>Event bindings: without code, as a spread, and a change handler on an input.\<close>

definition emptyHandlerNode :: node where
  "emptyHandlerNode = element ''button'' [] [(''onClick'', plainBinding [])]"

definition spreadNode :: node where
  "spreadNode = element ''button'' []
     [(''onProps'', \<lparr>code = ''onProps'', arguments = None, btype = Some ''spread''\<rparr>)]"

definition changeInputNode :: node where
  "changeInputNode = element ''input'' []
     [(''onChange'', plainBinding ''setName(event.target.value)'')]"

text \<open>Components: a bare one, and ones with update hooks and with a provided context.\<close>

definition bareComponent :: component where
  "bareComponent = \<lparr>componentName = ''MyComponent'',
     componentChildren = [element ''div'' [] []],
     contextGet = [], contextSet = [], onMount = None, onUpdate = None\<rparr>"

definition noDepsComponent :: component where
  "noDepsComponent = bareComponent\<lparr>onUpdate := Some [\<lparr>hookCode = ''log()'', deps = None\<rparr>]\<rparr>"

definition twoHooksComponent :: component where
  "twoHooksComponent = bareComponent\<lparr>onUpdate :=
     Some [\<lparr>hookCode = ''log()'', deps = None\<rparr>,
           \<lparr>hookCode = ''save(a)'', deps = Some ''[a]''\<rparr>]\<rparr>"

definition skippedHooksComponent :: component where
  "skippedHooksComponent = bareComponent\<lparr>onUpdate :=
     Some [\<lparr>hookCode = ''log()'', deps = None\<rparr>,
           \<lparr>hookCode = ''trace()'', deps = None\<rparr>]\<rparr>"

definition providingComponent :: component where
  "providingComponent = bareComponent\<lparr>contextSet :=
     [(''theme'', \<lparr>contextName = ''ThemeContext'', contextValue = Some [(''color'', ''red'')]\<rparr>)]\<rparr>"

definition dottedComponent :: component where
  "dottedComponent = bareComponent\<lparr>componentChildren :=
     [element ''foo.bar'' [] [(''key'', plainBinding ''value'')]]\<rparr>"

lemmas example_defs =
  exampleHelpers_def noScope_def plainBinding_def element_def emptyLoop_def oneChildLoop_def
  twoChildLoop_def skippedHooksComponent_def
  emptyClassNode_def onlyEmptyClassNode_def bothClassNode_def shortCssNode_def longCssNode_def emptyHandlerNode_def spreadNode_def changeInputNode_def
  bareComponent_def noDepsComponent_def twoHooksComponent_def providingComponent_def
  dottedComponent_def
  DEFAULT_OPTIONS_def

section \<open>Class composition\<close>

lemma takeStaticClass_bindings: "bindings (snd (takeStaticClass key p)) = bindings (snd p)"
  by (cases p) (simp add: takeStaticClass_def split: option.splits)

lemma takeDynamicClass_bindings:
  "bindings (snd (takeDynamicClass key p)) = AList.delete key (bindings (snd p))"
  by (cases p)
    (simp add: takeDynamicClass_def AList.delete_id map_of_eq_None_iff split: option.splits)

lemma takeCss_bindings:
  "bindings (snd (takeCss options p)) = AList.delete ''css'' (bindings (snd p))"
  by (cases p) (simp add: takeCss_def Let_def)

lemma staticClassesOf_fst: "fst (staticClassesOf json) = staticClassSources json"
  by (auto simp: staticClassesOf_def takeStaticClass_def staticClassSources_def
      List.map_filter_simps AList.delete_conv split: option.splits)

lemma staticClassesOf_bindings: "bindings (snd (staticClassesOf json)) = bindings json"
  by (simp add: staticClassesOf_def takeStaticClass_bindings)

lemma dynamicClassesOf_fst:
  "fst (dynamicClassesOf options json) = dynamicClassSources options json"
  by (auto simp: dynamicClassesOf_def takeDynamicClass_def takeCss_def dynamicClassSources_def
      List.map_filter_simps cssHelperApplies_def AList.delete_conv split: option.splits)

lemma collected_dynamic_classes:
  "fst (dynamicClassesOf options (snd (staticClassesOf json))) = dynamicClassSources options json"
  by (simp add: dynamicClassesOf_fst dynamicClassSources_def staticClassesOf_bindings)

lemma collectClassString_snd:
  "snd (collectClassString json options)
     = snd (dynamicClassesOf options (snd (staticClassesOf json)))"
  by (simp add: collectClassString_def Let_def split: prod.splits)

lemma collectClassString_bindings:
  "bindings (snd (collectClassString json options)) =
     AList.delete ''css'' (AList.delete ''className'' (AList.delete ''class'' (bindings json)))"
  by (simp add: collectClassString_snd dynamicClassesOf_def staticClassesOf_def
      takeCss_bindings takeDynamicClass_bindings takeStaticClass_bindings)

lemma collectClassString_value:
  \<open>fst (collectClassString json options) =
     (let s = staticClassSources json; d = dynamicClassSources options json
      in if s \<noteq> [] \<and> d = [] then Some (''"'' @ join '' '' s @ ''"'')
         else if s = [] \<and> d \<noteq> [] then Some (''{'' @ join '' + ' ' + '' d @ ''}'')
         else if s \<noteq> [] \<and> d \<noteq> []
           then Some (''{"'' @ join '' '' s @ '' " + '' @ join '' + ' ' + '' d @ ''}'')
         else None)\<close>
proof -
  obtain s j1 where s: "staticClassesOf json = (s, j1)"
    by fastforce
  obtain d j2 where d: "dynamicClassesOf options j1 = (d, j2)"
    by fastforce
  have "s = staticClassSources json"
    using s staticClassesOf_fst[of json] by simp
  moreover have "d = dynamicClassSources options json"
    using s d collected_dynamic_classes[of options json] by simp
  ultimately show ?thesis
    using s d by (auto simp: collectClassString_def Let_def)
qed

text \<open>
  Claim C1. The claim gives every element one class attribute, by the table over its
  static and dynamic class sources, or none. The code takes a \<^verbatim>\<open>class\<close> or \<^verbatim>\<open>className\<close>
  property as a static class by its truthiness, where it takes a binding by the type of
  its code: an empty property is neither collected nor deleted, and the loop over the
  properties prints it. On \<^const>\<open>emptyClassNode\<close>, an empty \<^verbatim>\<open>class\<close> property next to a
  \<^verbatim>\<open>className\<close> binding, the output has the class attribute of the binding and a second,
  empty one; on \<^const>\<open>onlyEmptyClassNode\<close> class composition returns \<^verbatim>\<open>null\<close> and the output
  still has an empty class attribute. On \<^const>\<open>bothClassNode\<close>, where the property is not
  empty, the property is consumed and the output has the one attribute of the table.
\<close>

theorem empty_class_attribute_output:
  \<open>map_of (properties emptyClassNode) ''class'' = Some [] \<and>
   map_option code (map_of (bindings emptyClassNode) ''className'') = Some ''expr'' \<and>
   fst (collectClassString emptyClassNode DEFAULT_OPTIONS) = Some ''{expr}'' \<and>
   blockToSolid exampleHelpers DEFAULT_OPTIONS emptyClassNode
     = ''<div  class={expr}  class="" ></div>'' \<and>
   fst (collectClassString onlyEmptyClassNode DEFAULT_OPTIONS) = None \<and>
   blockToSolid exampleHelpers DEFAULT_OPTIONS onlyEmptyClassNode = ''<div  class="" ></div>'' \<and>
   blockToSolid exampleHelpers DEFAULT_OPTIONS bothClassNode
     = ''<div  class={"a " + expr} ></div>''\<close>
proof -
  have composed: "collectClassString emptyClassNode DEFAULT_OPTIONS
      = (Some ''{expr}'', onlyEmptyClassNode)"
    "collectClassString onlyEmptyClassNode DEFAULT_OPTIONS = (None, onlyEmptyClassNode)"
    \<open>collectClassString bothClassNode DEFAULT_OPTIONS
      = (Some ''{"a " + expr}'', element ''div'' [] [])\<close>
    by (simp_all add: collectClassString_def staticClassesOf_def dynamicClassesOf_def
        takeStaticClass_def takeDynamicClass_def takeCss_def truthy_def example_defs)
  have \<open>blockToSolid exampleHelpers DEFAULT_OPTIONS emptyClassNode
      = ''<div  class={expr}  class="" ></div>''\<close>
    using composed(1)
    by (subst blockToSolid.simps)
      (simp add: example_defs classAttribute_def propertyToSolid_def truthy_def)
  moreover have \<open>blockToSolid exampleHelpers DEFAULT_OPTIONS onlyEmptyClassNode
      = ''<div  class="" ></div>''\<close>
    using composed(2)
    by (subst blockToSolid.simps)
      (simp add: example_defs classAttribute_def propertyToSolid_def truthy_def)
  moreover have \<open>blockToSolid exampleHelpers DEFAULT_OPTIONS bothClassNode
      = ''<div  class={"a " + expr} ></div>''\<close>
    using composed(3)
    by (subst blockToSolid.simps)
      (simp add: example_defs classAttribute_def propertyToSolid_def truthy_def)
  ultimately show ?thesis
    using composed by (simp add: example_defs)
qed

text \<open>
  On the sources as the code takes them, a static source being a \<^verbatim>\<open>class\<close> or \<^verbatim>\<open>className\<close>
  property that holds a non-empty string, the value class composition returns follows
  the table: the quoted static strings, the dynamic expression in braces, both joined
  by \<^verbatim>\<open>+\<close> in braces, or nothing.
\<close>

lemma class_composition:
  \<open>classAttribute (fst (collectClassString json options)) =
     (let s = staticClassSources json; d = dynamicClassSources options json
      in if s \<noteq> [] \<and> d = [] then '' class="'' @ join '' '' s @ ''" ''
         else if s = [] \<and> d \<noteq> [] then '' class={'' @ join '' + ' ' + '' d @ ''} ''
         else if s \<noteq> [] \<and> d \<noteq> []
           then '' class={"'' @ join '' '' s @ '' " + '' @ join '' + ' ' + '' d @ ''} ''
         else [])\<close>
  by (simp add: collectClassString_value classAttribute_def truthy_def Let_def)

text \<open>The table of the specification, on the static class \<^verbatim>\<open>a\<close> and the binding \<^verbatim>\<open>expr\<close>.\<close>

lemma class_composition_examples:
  \<open>fst (collectClassString (element ''div'' [(''class'', ''a'')] []) DEFAULT_OPTIONS)
     = Some ''"a"''\<close>
  \<open>fst (collectClassString (element ''div'' [] [(''class'', plainBinding ''expr'')]) DEFAULT_OPTIONS)
     = Some ''{expr}''\<close>
  \<open>fst (collectClassString
          (element ''div'' [(''class'', ''a'')] [(''class'', plainBinding ''expr'')]) DEFAULT_OPTIONS)
     = Some ''{"a " + expr}''\<close>
  \<open>fst (collectClassString (element ''div'' [] []) DEFAULT_OPTIONS) = None\<close>
  by (simp_all add: collectClassString_value staticClassSources_def dynamicClassSources_def
      List.map_filter_simps truthy_def example_defs)

text \<open>
  The \<^verbatim>\<open>css\<close> binding of \<^const>\<open>shortCssNode\<close> is not empty and the styles are
  styled-components, yet no call of the helper is among the dynamic classes: the trimmed
  code is not longer than 4 characters.
\<close>

theorem short_css_counterexample:
  "map_option code (map_of (bindings shortCssNode) ''css'') = Some ''{}'' \<and>
   stylesType DEFAULT_OPTIONS = StyledComponents \<and>
   ''css({})'' \<notin> set (fst (dynamicClassesOf DEFAULT_OPTIONS (snd (staticClassesOf shortCssNode)))) \<and>
   fst (collectClassString shortCssNode DEFAULT_OPTIONS) = None"
  by (simp add: collected_dynamic_classes collectClassString_value staticClassSources_def
      dynamicClassSources_def cssHelperApplies_def List.map_filter_simps trim_def
      isWhiteSpace_def example_defs)

text \<open>
  Claim C4, amended. When the styles are styled-components, a node whose \<^verbatim>\<open>css\<close> binding
  has code that is longer than 4 characters after trimming has the call \<^verbatim>\<open>css(code)\<close> as
  the last of its dynamic classes, and the node gets a class attribute.
\<close>

theorem css_helper_included:
  assumes "stylesType options = StyledComponents"
    and "map_of (bindings json) ''css'' = Some b"
    and "4 < length (trim (code b))"
  shows "(\<exists>others. fst (dynamicClassesOf options (snd (staticClassesOf json)))
                     = others @ [''css('' @ code b @ '')'']) \<and>
         fst (collectClassString json options) \<noteq> None"
proof -
  have "dynamicClassSources options json
      = map code (List.map_filter (map_of (bindings json)) [''class'', ''className''])
        @ [''css('' @ code b @ '')'']"
    using assms by (simp add: dynamicClassSources_def cssHelperApplies_def List.map_filter_simps)
  then show ?thesis
    by (auto simp: collected_dynamic_classes collectClassString_value Let_def)
qed

theorem css_helper_included_witness:
  "fst (dynamicClassesOf DEFAULT_OPTIONS (snd (staticClassesOf longCssNode)))
     = [''css({ margin: 0 })''] \<and>
   fst (collectClassString longCssNode DEFAULT_OPTIONS) \<noteq> None"
proof -
  have "stylesType DEFAULT_OPTIONS = StyledComponents"
    by (simp add: DEFAULT_OPTIONS_def)
  moreover have "map_of (bindings longCssNode) ''css'' = Some (plainBinding ''{ margin: 0 }'')"
    by (simp add: longCssNode_def element_def)
  moreover have "4 < length (trim (code (plainBinding ''{ margin: 0 }'')))"
    by (simp add: plainBinding_def trim_def isWhiteSpace_def)
  ultimately show ?thesis
    using css_helper_included[of DEFAULT_OPTIONS longCssNode "plainBinding ''{ margin: 0 }''"]
    by (simp add: collected_dynamic_classes dynamicClassSources_def cssHelperApplies_def
        List.map_filter_simps longCssNode_def element_def plainBinding_def)
qed

text \<open>
  Claim C9. After class composition the bindings of the node have no \<^verbatim>\<open>css\<close> key, whatever
  the styles type and the code of the binding, and the binding under any key other than
  \<^verbatim>\<open>class\<close>, \<^verbatim>\<open>className\<close> and \<^verbatim>\<open>css\<close> is what it was.
\<close>

theorem css_binding_removed:
  "''css'' \<notin> fst ` set (bindings (snd (collectClassString json options))) \<and>
   (k \<notin> {''class'', ''className'', ''css''} \<longrightarrow>
      map_of (bindings (snd (collectClassString json options))) k = map_of (bindings json) k)"
  by (simp add: collectClassString_bindings AList.delete_conv delete_notin_dom)

theorem css_binding_removed_witness:
  "''css'' \<notin> fst ` set (bindings (snd (collectClassString longCssNode
       \<lparr>stylesType = StyleTag, prettier = True\<rparr>))) \<and>
   map_of (bindings (snd (collectClassString longCssNode \<lparr>stylesType = StyleTag, prettier = True\<rparr>)))
     ''id'' = Some (plainBinding ''props.id'')"
  using css_binding_removed[of longCssNode "\<lparr>stylesType = StyleTag, prettier = True\<rparr>" "''id''"]
  by (simp add: longCssNode_def element_def)

section \<open>The serializer\<close>




lemmas blockToSolid_node = blockToSolid.simps[of _ _ "MitosisNode nm ps bs cs e s" for nm ps bs cs e s]

text \<open>The text of a for node, as the template literal of the source gives it.\<close>

lemma for_node_rendering:
  assumes "\<not> isTextNode json" and "checkIsForNode h json"
  shows \<open>blockToSolid h options json =
     ''<For each={'' @ template (map_option code (map_of (bindings json) ''each'')) @ ''}>\<newline>''
     @ ''    {('' @ template (forName (scope json)) @ '', _index) => {\<newline>''
     @ ''      const '' @ indexBinding json @ '' = _index();\<newline>''
     @ ''      return '' @ (if length (children json) \<noteq> 1 then ''<>'' else [])
     @ join '','' (map (blockToSolid h options) (filter (filterEmptyTextNodes h) (children json)))
     @ ''}}\<newline>''
     @ ''      '' @ (if length (children json) \<noteq> 1 then ''</>'' else []) @ ''\<newline>''
     @ ''    </For>''\<close>
  using assms by (subst blockToSolid.simps) (simp add: isTextNode_def indexBinding_def Let_def)

text \<open>
  Claim C2. The claim has the children of a loop wrapped in a fragment when there is more
  than one. On \<^const>\<open>twoChildLoop\<close>, a loop over \<^verbatim>\<open>items\<close> with two children, the code opens
  the fragment before the children, prints the children joined by a comma, then the two
  braces that end the callback, and only then the closing tag of the fragment: the
  fragment is not around the children, and the text is not an expression the callback
  can return. The iterable, the item name and the index constant are as the claim has
  them.
\<close>

theorem wrapped_loop_output:
  \<open>length (children twoChildLoop) = 2 \<and>
   blockToSolid exampleHelpers DEFAULT_OPTIONS twoChildLoop =
     ''<For each={items}>\<newline>    {(item, _index) => {\<newline>      const index = _index();\<newline>      return <><li ></li>,<p ></p>}}\<newline>      </>\<newline>    </For>''\<close>
proof -
  have composed: "collectClassString (element nm [] []) DEFAULT_OPTIONS = (None, element nm [] [])"
    for nm
    by (simp add: collectClassString_def staticClassesOf_def dynamicClassesOf_def
        takeStaticClass_def takeDynamicClass_def takeCss_def example_defs)
  have kids: "blockToSolid exampleHelpers DEFAULT_OPTIONS (element ''li'' [] []) = ''<li ></li>''"
    "blockToSolid exampleHelpers DEFAULT_OPTIONS (element ''p'' [] []) = ''<p ></p>''"
    using composed[of "''li''"] composed[of "''p''"]
    by (simp_all add: example_defs blockToSolid_node classAttribute_def)
  have "\<not> isTextNode twoChildLoop" and "checkIsForNode exampleHelpers twoChildLoop"
    by (simp_all add: isTextNode_def example_defs)
  from for_node_rendering[OF this, of DEFAULT_OPTIONS] show ?thesis
    using kids
    by (simp add: twoChildLoop_def exampleHelpers_def template_def indexBinding_def
        plainBinding_def element_def noScope_def)
qed

text \<open>
  The test for the fragment is that the number of direct children is not one: a loop
  without children gets it too, a loop with one child does not.
\<close>

lemma empty_loop_output:
  \<open>blockToSolid exampleHelpers DEFAULT_OPTIONS emptyLoop =
     ''<For each={items}>\<newline>    {(item, _index) => {\<newline>      const index = _index();\<newline>      return <>}}\<newline>      </>\<newline>    </For>''\<close>
  by (simp add: example_defs blockToSolid_node template_def truthy_def)

lemma one_child_loop_output:
  \<open>blockToSolid exampleHelpers DEFAULT_OPTIONS oneChildLoop =
     ''<For each={items}>\<newline>    {(item, _index) => {\<newline>      const i = _index();\<newline>      return hello}}\<newline>      \<newline>    </For>''\<close>
  using for_node_rendering[of oneChildLoop exampleHelpers DEFAULT_OPTIONS]
  by (simp add: example_defs blockToSolid_node template_def truthy_def isTextNode_def
      indexBinding_def trim_def isWhiteSpace_def)




section \<open>Dynamic components and providers\<close>

lemma processDynamicNode_nodes:
  "map (\<lambda>m. (name m, map_of (bindings m) ''component'')) (nodesOf (snd (processDynamicNode n)))
     = map dynamicRewrite (nodesOf n)"
proof (induction n)
  case (MitosisNode nm props binds kids els sc)
  have kids: "map (\<lambda>m. (name m, map_of (bindings m) ''component''))
           (concat (map nodesOf (map snd (map processDynamicNode kids))))
         = map dynamicRewrite (concat (map nodesOf kids))"
    using MitosisNode.IH(1) by (induction kids) (auto simp: map_concat)
  have els: "map (\<lambda>m. (name m, map_of (bindings m) ''component''))
           (case map_option snd (map_option processDynamicNode els) of
              Some e \<Rightarrow> nodesOf e | None \<Rightarrow> [])
         = map dynamicRewrite (case els of Some e \<Rightarrow> nodesOf e | None \<Rightarrow> [])"
    using MitosisNode.IH(2) by (cases els) auto
  have head: "(if includesChar nm CHR ''.'' then ''Dynamic'' else nm,
       map_of (if includesChar nm CHR ''.''
               then AList.update ''component''
                      \<lparr>code = nm, arguments = None, btype = None\<rparr> binds
               else binds) ''component'')
     = dynamicRewrite (MitosisNode nm props binds kids els sc)"
    by (simp add: dynamicRewrite_def hasDot_def update_conv)
  show ?case
    using kids els head by (simp add: Let_def map_concat)
qed

lemma processDynamicNode_found: "fst (processDynamicNode n) = list_ex hasDot (nodesOf n)"
proof (induction n)
  case (MitosisNode nm props binds kids els sc)
  have kids: "list_ex fst (map processDynamicNode kids)
      = list_ex hasDot (concat (map nodesOf kids))"
    using MitosisNode.IH(1) by (induction kids) (auto simp: list_ex_iff)
  have els: "(case map_option processDynamicNode els of Some r \<Rightarrow> fst r | None \<Rightarrow> False)
     = list_ex hasDot (case els of Some e \<Rightarrow> nodesOf e | None \<Rightarrow> [])"
    using MitosisNode.IH(2) by (cases els) auto
  show ?case
    using kids els by (simp add: Let_def hasDot_def list_ex_iff) blast
qed

lemma processDynamicComponents_found:
  "fst (processDynamicComponents json) = list_ex hasDot (componentNodes json)"
  by (induction "componentChildren json" arbitrary: json)
    (auto simp: processDynamicComponents_def componentNodes_def Let_def list_ex_iff
      processDynamicNode_found)

lemma processDynamicComponents_nodes:
  "map (\<lambda>m. (name m, map_of (bindings m) ''component''))
       (componentNodes (snd (processDynamicComponents json)))
   = map dynamicRewrite (componentNodes json)"
proof -
  have "map (\<lambda>m. (name m, map_of (bindings m) ''component''))
           (concat (map nodesOf (map snd (map processDynamicNode kids))))
         = map dynamicRewrite (concat (map nodesOf kids))" for kids
    by (induction kids) (auto simp: processDynamicNode_nodes)
  then show ?thesis
    by (simp add: processDynamicComponents_def componentNodes_def Let_def)
qed

lemma moduleTemplate_dynamicPart: "sublist (dynamicPart p) (moduleTemplate p)"
proof -
  have "\<exists>pre post. moduleTemplate p = pre @ dynamicPart p @ post"
    unfolding moduleTemplate_def by (metis append_assoc)
  then show ?thesis
    by (auto simp: sublist_def)
qed

lemma assemble_dynamicImportLine:
  "sublist (dynamicImportLine (fst (processDynamicComponents (beforeDynamicPass h component))))
     (assemble h options component)"
proof -
  obtain found json where
    pass: "processDynamicComponents (beforeDynamicPass h component) = (found, json)"
    by fastforce
  obtain p where "assemble h options component = moduleTemplate p"
    and "dynamicPart p = dynamicImportLine found"
    by (cases "stylesType options = StyleTag"; simp add: assemble_def Let_def pass)
  then show ?thesis
    using moduleTemplate_dynamicPart[of p] by (simp add: pass)
qed

text \<open>
  Claim C6. The dynamic-component pass gives every node whose name contains a dot the
  name \<^verbatim>\<open>Dynamic\<close> and a \<^verbatim>\<open>component\<close> binding whose code is the original name, and leaves
  the name and that binding of every other node as they are; it reports a find exactly
  when the tree has such a node, and then the line that imports \<^verbatim>\<open>Dynamic\<close> is part of
  the assembled module.
\<close>

theorem dynamic_components:
  \<open>map (\<lambda>m. (name m, map_of (bindings m) ''component''))
       (componentNodes (snd (processDynamicComponents json)))
     = map dynamicRewrite (componentNodes json) \<and>
   fst (processDynamicComponents json) = list_ex hasDot (componentNodes json) \<and>
   dynamicImportLine (fst (processDynamicComponents json))
     = (if list_ex hasDot (componentNodes json)
        then ''import { Dynamic } from 'solid-js/web';'' else []) \<and>
   sublist (dynamicImportLine (list_ex hasDot (componentNodes (beforeDynamicPass h component))))
     (assemble h options component)\<close>
  using assemble_dynamicImportLine[of h component options]
  by (simp add: processDynamicComponents_nodes processDynamicComponents_found
      dynamicImportLine_def)

text \<open>The example of the specification: a node named \<^verbatim>\<open>foo.bar\<close> with a \<^verbatim>\<open>key\<close> binding.\<close>

theorem dynamic_components_witness:
  \<open>map (\<lambda>m. (name m, map_of (bindings m) ''component''))
       (componentNodes (snd (processDynamicComponents dottedComponent)))
     = [(''Dynamic'', Some (plainBinding ''foo.bar''))] \<and>
   fst (processDynamicComponents dottedComponent) \<and>
   sublist ''import { Dynamic } from 'solid-js/web';''
     (assemble exampleHelpers DEFAULT_OPTIONS dottedComponent)\<close>
proof -
  have nodes: "componentNodes dottedComponent
      = [element ''foo.bar'' [] [(''key'', plainBinding ''value'')]]"
    by (simp add: componentNodes_def dottedComponent_def bareComponent_def element_def)
  have pass: "beforeDynamicPass exampleHelpers dottedComponent = dottedComponent"
    by (simp add: beforeDynamicPass_def withProviders_def addProviderComponents_def
        exampleHelpers_def dottedComponent_def bareComponent_def)
  have dotted: "hasDot (element ''foo.bar'' [] [(''key'', plainBinding ''value'')])"
    by (simp add: hasDot_def includesChar_def element_def)
  from dynamic_components[of dottedComponent exampleHelpers dottedComponent DEFAULT_OPTIONS]
  show ?thesis
    by (simp add: nodes pass dotted dynamicRewrite_def dynamicImportLine_def)
      (simp add: element_def plainBinding_def)
qed

lemma dynamic_components_example:
  "processDynamicNode (element ''foo.bar'' [] [(''key'', plainBinding ''value'')])
     = (True, element ''Dynamic'' []
          [(''key'', plainBinding ''value''), (''component'', plainBinding ''foo.bar'')])"
  by (simp add: element_def plainBinding_def noScope_def includesChar_def)

lemma addProvider_children:
  "componentChildren (foldl (addProvider h) json entries)
     = foldl (\<lambda>kids (key, info).
          [createMitosisNode (contextName info @ ''.Provider'') kids (providerBindings h info)])
        (componentChildren json) entries"
  by (induction entries arbitrary: json) (auto simp: addProvider_def)

lemma providerBindings_update:
  "AList.update ''component'' b (providerBindings h info)
     = providerBindings h info @ [(''component'', b)]"
  by (simp add: providerBindings_def split: option.splits)

lemma processDynamicNode_provider:
  "processDynamicNode
     (createMitosisNode (contextName info @ ''.Provider'') kids (providerBindings h info))
   = (True, hd (dynamicProvider h (map (\<lambda>n. snd (processDynamicNode n)) kids) (key, info)))"
  by (simp add: createMitosisNode_def dynamicProvider_def Let_def includesChar_def
      providerBindings_update comp_def)

lemma providers_rewritten:
  "map (\<lambda>n. snd (processDynamicNode n))
     (foldl (\<lambda>kids (key, info).
          [createMitosisNode (contextName info @ ''.Provider'') kids (providerBindings h info)])
        kids entries)
   = foldl (dynamicProvider h) (map (\<lambda>n. snd (processDynamicNode n)) kids) entries"
proof (induction entries arbitrary: kids)
  case Nil
  then show ?case by simp
next
  case (Cons e entries)
  obtain key info where e: "e = (key, info)"
    by (cases e)
  have "map (\<lambda>n. snd (processDynamicNode n))
          [createMitosisNode (contextName info @ ''.Provider'') kids (providerBindings h info)]
        = dynamicProvider h (map (\<lambda>n. snd (processDynamicNode n)) kids) (key, info)"
    by (simp add: processDynamicNode_provider[of info kids h key])
      (simp add: dynamicProvider_def)
  then show ?case
    using Cons.IH[of "[createMitosisNode (contextName info @ ''.Provider'') kids
                         (providerBindings h info)]"]
    by (simp add: e)
qed

lemma providers_root:
  assumes "entries \<noteq> []"
  shows "foldl (\<lambda>kids (key, info).
          [createMitosisNode (contextName info @ ''.Provider'') kids (providerBindings h info)])
        kids entries
     = [createMitosisNode (contextName (snd (last entries)) @ ''.Provider'')
          (foldl (\<lambda>kids (key, info).
             [createMitosisNode (contextName info @ ''.Provider'') kids
                (providerBindings h info)])
           kids (butlast entries))
          (providerBindings h (snd (last entries)))]"
  using assms by (cases entries rule: rev_cases) (auto split: prod.splits)


text \<open>
  The two passes composed: provider wrapping leaves the provider of the last entry as the
  single root, and the dynamic-component pass turns every provider into a node named
  \<^verbatim>\<open>Dynamic\<close> with the \<^verbatim>\<open>component\<close> binding, around the rewritten children.
\<close>

lemma provider_pass_composition:
  assumes "contextSet json \<noteq> []"
  shows \<open>(\<exists>kids. componentChildren (addProviderComponents h json)
            = [createMitosisNode (contextName (snd (last (contextSet json))) @ ''.Provider'')
                 kids (providerBindings h (snd (last (contextSet json))))]) \<and>
         componentChildren (snd (processDynamicComponents (addProviderComponents h json)))
            = foldl (dynamicProvider h)
                (map (\<lambda>n. snd (processDynamicNode n)) (componentChildren json))
                (contextSet json) \<and>
         fst (processDynamicComponents (addProviderComponents h json)) \<and>
         dynamicImportLine (fst (processDynamicComponents (addProviderComponents h json)))
            = ''import { Dynamic } from 'solid-js/web';''\<close>
proof -
  let ?wrap = "\<lambda>kids (key, info).
          [createMitosisNode (contextName info @ ''.Provider'') kids (providerBindings h info)]"
  have children: "componentChildren (addProviderComponents h json)
      = foldl ?wrap (componentChildren json) (contextSet json)"
    by (simp add: addProviderComponents_def addProvider_children)
  have root: "componentChildren (addProviderComponents h json)
      = [createMitosisNode (contextName (snd (last (contextSet json))) @ ''.Provider'')
           (foldl ?wrap (componentChildren json) (butlast (contextSet json)))
           (providerBindings h (snd (last (contextSet json))))]"
    unfolding children using providers_root[OF assms] by simp
  have single: "\<exists>kids. componentChildren (addProviderComponents h json)
            = [createMitosisNode (contextName (snd (last (contextSet json))) @ ''.Provider'')
                 kids (providerBindings h (snd (last (contextSet json))))]"
    using root by blast
  have rewritten:
    "componentChildren (snd (processDynamicComponents (addProviderComponents h json)))
      = foldl (dynamicProvider h)
          (map (\<lambda>n. snd (processDynamicNode n)) (componentChildren json)) (contextSet json)"
    using providers_rewritten[of h "componentChildren json" "contextSet json"]
    by (simp add: processDynamicComponents_def Let_def children comp_def)
  have found: "fst (processDynamicComponents (addProviderComponents h json))"
    by (simp add: processDynamicComponents_def Let_def root
        processDynamicNode_provider[of _ _ h undefined])
  have line: "dynamicImportLine (fst (processDynamicComponents (addProviderComponents h json)))
            = ''import { Dynamic } from 'solid-js/web';''"
    using found by (simp add: dynamicImportLine_def)
  show ?thesis
    using single rewritten found line by blast
qed

lemma provider_pass_example:
  \<open>componentChildren
     (snd (processDynamicComponents (addProviderComponents exampleHelpers providingComponent)))
     = [MitosisNode ''Dynamic'' []
          [(''value'', plainBinding ''{color: red}''),
           (''component'', plainBinding ''ThemeContext.Provider'')]
          [element ''div'' [] []] None noScope] \<and>
   fst (processDynamicComponents (addProviderComponents exampleHelpers providingComponent)) \<and>
   dynamicImportLine
     (fst (processDynamicComponents (addProviderComponents exampleHelpers providingComponent)))
     = ''import { Dynamic } from 'solid-js/web';''\<close>
proof -
  have "contextSet providingComponent \<noteq> []"
    by (simp add: providingComponent_def)
  from provider_pass_composition[OF this, of exampleHelpers] have
    rewritten: "componentChildren
       (snd (processDynamicComponents (addProviderComponents exampleHelpers providingComponent)))
       = foldl (dynamicProvider exampleHelpers)
           (map (\<lambda>n. snd (processDynamicNode n)) (componentChildren providingComponent))
           (contextSet providingComponent)"
    and found:
      "fst (processDynamicComponents (addProviderComponents exampleHelpers providingComponent))"
    and line: \<open>dynamicImportLine
       (fst (processDynamicComponents (addProviderComponents exampleHelpers providingComponent)))
       = ''import { Dynamic } from 'solid-js/web';''\<close>
    by blast+
  have "foldl (dynamicProvider exampleHelpers)
           (map (\<lambda>n. snd (processDynamicNode n)) (componentChildren providingComponent))
           (contextSet providingComponent)
        = [MitosisNode ''Dynamic'' []
             [(''value'', plainBinding ''{color: red}''),
              (''component'', plainBinding ''ThemeContext.Provider'')]
             [element ''div'' [] []] None noScope]"
    by (simp add: example_defs dynamicProvider_def providerBindings_def includesChar_def)
  with rewritten found line show ?thesis
    by simp
qed






section \<open>Imports and hooks\<close>

lemma uniq_foldl:
  "\<exists>ys. foldl (\<lambda>out a. if a \<in> set out then out else out @ [a]) out as = out @ ys
        \<and> subseq ys as \<and> set ys = set as - set out \<and> (distinct out \<longrightarrow> distinct (out @ ys))"
proof (induction as arbitrary: out)
  case Nil
  then show ?case by simp
next
  case (Cons a as)
  show ?case
  proof (cases "a \<in> set out")
    case True
    obtain ys where
      "foldl (\<lambda>out a. if a \<in> set out then out else out @ [a]) out as = out @ ys"
      "subseq ys as" "set ys = set as - set out" "distinct out \<longrightarrow> distinct (out @ ys)"
      using Cons.IH[of out] by blast
    with True show ?thesis
      by (auto intro!: exI[of _ ys])
  next
    case False
    obtain ys where
      "foldl (\<lambda>out a. if a \<in> set out then out else out @ [a]) (out @ [a]) as
         = (out @ [a]) @ ys"
      "subseq ys as" "set ys = set as - set (out @ [a])"
      "distinct (out @ [a]) \<longrightarrow> distinct ((out @ [a]) @ ys)"
      using Cons.IH[of "out @ [a]"] by blast
    with False show ?thesis
      by (auto intro!: exI[of _ "a # ys"])
  qed
qed

lemma uniq_distinct: "distinct (uniq as)"
  using uniq_foldl[of "[]" as] by (auto simp: uniq_def)

lemma uniq_subseq: "subseq (uniq as) as"
  using uniq_foldl[of "[]" as] by (auto simp: uniq_def)

lemma uniq_set: "set (uniq as) = set as"
  using uniq_foldl[of "[]" as] by (auto simp: uniq_def)

text \<open>
  Claim C5. A component with no context use, no \<^verbatim>\<open>Show\<close>, no \<^verbatim>\<open>For\<close>, no hooks and no import
  asked for by the state module imports nothing from the runtime; the same component
  with a mount hook that has code imports \<^verbatim>\<open>onMount\<close> and nothing else; the list of
  imports has no duplicates and keeps the order of the candidates.
\<close>

theorem import_minimality:
  assumes "noImportSources h options json" and "onMount json = None"
    and "noImportSources h options (json\<lparr>onMount := Some c\<rparr>)" and "truthy c"
  shows "solidJSImports h options json = [] \<and>
         solidJSImports h options (json\<lparr>onMount := Some c\<rparr>) = [''onMount''] \<and>
         distinct (solidJSImports h options (json\<lparr>onMount := Some c\<rparr>)) \<and>
         subseq (solidJSImports h options (json\<lparr>onMount := Some c\<rparr>))
           (List.map_filter id (importCandidates h options (json\<lparr>onMount := Some c\<rparr>)))"
proof -
  have "solidJSImports h options json = []"
    using assms(1,2)
    by (auto simp: solidJSImports_def importCandidates_def noImportSources_def uniq_def
        List.map_filter_simps split: option.splits)
  moreover have "solidJSImports h options (json\<lparr>onMount := Some c\<rparr>) = [''onMount'']"
    using assms(3,4)
    by (auto simp: solidJSImports_def importCandidates_def noImportSources_def uniq_def
        List.map_filter_simps split: option.splits)
  moreover have "distinct (solidJSImports h options j)" for j
    by (simp only: solidJSImports_def uniq_distinct)
  moreover have "subseq (solidJSImports h options j)
      (List.map_filter id (importCandidates h options j))" for j
    by (simp only: solidJSImports_def uniq_subseq)
  ultimately show ?thesis
    by blast
qed

theorem import_minimality_witness:
  "solidJSImports exampleHelpers DEFAULT_OPTIONS bareComponent = [] \<and>
   solidJSImports exampleHelpers DEFAULT_OPTIONS (bareComponent\<lparr>onMount := Some ''start()''\<rparr>)
     = [''onMount'']"
proof -
  have "noImportSources exampleHelpers DEFAULT_OPTIONS bareComponent"
    and "onMount bareComponent = None"
    and "noImportSources exampleHelpers DEFAULT_OPTIONS (bareComponent\<lparr>onMount := Some ''start()''\<rparr>)"
    and "truthy ''start()''"
    by (simp_all add: noImportSources_def componentNodes_def truthy_def example_defs)
  from import_minimality[OF this] show ?thesis
    by simp
qed

lemma set_defined_candidates: "set (List.map_filter id xs) = {y. Some y \<in> set xs}"
  by (induction xs) (auto simp: List.map_filter_simps split: option.splits)

text \<open>What decides the effect symbols: an \<^verbatim>\<open>onUpdate\<close> array that is not empty.\<close>

lemma effect_imports_iff:
  "''createEffect'' \<in> set (solidJSImports h options json) \<longleftrightarrow>
     (case onUpdate json of Some hooks \<Rightarrow> hooks \<noteq> [] | None \<Rightarrow> False) \<or>
     ''createEffect'' \<in> set (case getState h json options of
                               Some st \<Rightarrow> importSolidjs st | None \<Rightarrow> [])"
  by (auto simp: solidJSImports_def uniq_set set_defined_candidates importCandidates_def
      split: option.splits if_splits)

text \<open>
  Claim C3 asks that the effect symbols are imported only for an \<^verbatim>\<open>onUpdate\<close> entry with
  dependencies, as the body of the component registers an effect only for such an entry.
  On \<^const>\<open>noDepsComponent\<close>, whose only entry has no dependencies and which the passes
  before the template leave as it is, nothing is registered and both symbols are
  imported.
\<close>

theorem effect_imports_without_deps:
  \<open>map declaresDeps (the (onUpdate noDepsComponent)) = [False] \<and>
   renderedComponent exampleHelpers DEFAULT_OPTIONS noDepsComponent = noDepsComponent \<and>
   onUpdateString noDepsComponent = [] \<and>
   solidJSImports exampleHelpers DEFAULT_OPTIONS noDepsComponent = [''on'', ''createEffect''] \<and>
   solidJSImportLine (solidJSImports exampleHelpers DEFAULT_OPTIONS noDepsComponent)
     = ''import { on, createEffect } from 'solid-js';''\<close>
proof -
  have symbols: "solidJSImports exampleHelpers DEFAULT_OPTIONS noDepsComponent
      = [''on'', ''createEffect'']"
    by (simp add: solidJSImports_def importCandidates_def uniq_def List.map_filter_simps
        componentNodes_def example_defs)
  have "renderedComponent exampleHelpers DEFAULT_OPTIONS noDepsComponent = noDepsComponent"
    by (simp add: renderedComponent_def processDynamicComponents_def beforeDynamicPass_def
        withProviders_def addProviderComponents_def includesChar_def example_defs)
  moreover have "onUpdateString noDepsComponent = []"
    by (simp add: onUpdateString_def onUpdateToSolid_def enumerate_eq_zip example_defs)
  moreover have "map declaresDeps (the (onUpdate noDepsComponent)) = [False]"
    by (simp add: declaresDeps_def example_defs)
  ultimately show ?thesis
    by (simp add: symbols solidJSImportLine_def)
qed

lemma onUpdateToSolid_cases:
  "onUpdateToSolid (i, hook) = (if declaresDeps hook then effectRegistration (i, hook) else [])"
  by (simp add: onUpdateToSolid_def declaresDeps_def effectRegistration_def template_def
      Let_def split: option.splits)

lemma effectRegistration_nonempty: "effectRegistration p \<noteq> []"
  by (cases p) (simp add: effectRegistration_def)

lemma moduleTemplate_update_position:
  \<open>\<exists>pre post. moduleTemplate p
     = pre @ ''\<newline>      '' @ updatePart p @ ''\<newline>\<newline>      return ('' @ post\<close>
proof -
  have \<open>moduleTemplate p =
      (''\<newline>    '' @ importsPart p
       @ ''\<newline>    '' @ dynamicPart p
       @ ''\<newline>    '' @ storePart p
       @ ''\<newline>    '' @ cssPart p
       @ ''\<newline>    '' @ prePart p
       @ ''\<newline>\<newline>    function '' @ namePart p @ ''(props) {\<newline>''
       @ ''      '' @ statePart p
       @ ''\<newline>      \<newline>      '' @ refsPart p
       @ ''\<newline>      '' @ contextPart p
       @ ''\<newline>\<newline>      '' @ mountPart p)
      @ ''\<newline>      '' @ updatePart p @ ''\<newline>\<newline>      return (''
      @ (openPart p
         @ ''\<newline>        '' @ childrenPart p
         @ ''\<newline>        '' @ stylePart p
         @ ''\<newline>        '' @ closePart p @ '')\<newline>''
         @ ''    }\<newline>\<newline>    export default '' @ namePart p @ '';\<newline>  '')\<close>
    by (simp add: moduleTemplate_def)
  then show ?thesis
    by blast
qed

lemma assemble_update_position:
  \<open>\<exists>pre post. assemble h options component
     = pre @ ''\<newline>      '' @ onUpdateString (renderedComponent h options component)
       @ ''\<newline>\<newline>      return ('' @ post\<close>
proof -
  obtain found json where
    pass: "processDynamicComponents (beforeDynamicPass h component) = (found, json)"
    by fastforce
  obtain p where p: "assemble h options component = moduleTemplate p"
    "updatePart p = onUpdateString (renderedComponent h options component)"
    by (cases "stylesType options = StyleTag";
        simp add: assemble_def renderedComponent_def Let_def pass)
  show ?thesis
    using moduleTemplate_update_position[of p] unfolding p by blast
qed

lemma onUpdateToSolid_hookFragment: "onUpdateToSolid = hookFragment"
  by (auto simp: fun_eq_iff onUpdateToSolid_cases hookFragment_def)

text \<open>
  Two entries without dependencies: each gives the empty fragment, and the line break
  that joins the fragments is in the assembled module, where a component without entries
  has nothing.
\<close>

theorem skipped_hooks_counterexample:
  \<open>map declaresDeps (the (onUpdate skippedHooksComponent)) = [False, False] \<and>
   onUpdateString (skippedHooksComponent\<lparr>onUpdate := Some []\<rparr>) = [] \<and>
   onUpdateString (renderedComponent exampleHelpers DEFAULT_OPTIONS skippedHooksComponent)
     = ''\<newline>'' \<and>
   sublist (''\<newline>      '' @ ''\<newline>'' @ ''\<newline>\<newline>      return ('')
     (assemble exampleHelpers DEFAULT_OPTIONS skippedHooksComponent)\<close>
proof -
  have rendered: "renderedComponent exampleHelpers DEFAULT_OPTIONS skippedHooksComponent
      = skippedHooksComponent"
    by (simp add: renderedComponent_def processDynamicComponents_def beforeDynamicPass_def
        withProviders_def addProviderComponents_def includesChar_def example_defs)
  have joined: \<open>onUpdateString skippedHooksComponent = ''\<newline>''\<close>
    by (simp add: onUpdateString_def onUpdateToSolid_def enumerate_eq_zip upt_rec example_defs)
  have "sublist (''\<newline>      '' @ onUpdateString skippedHooksComponent @ ''\<newline>\<newline>      return ('')
     (assemble exampleHelpers DEFAULT_OPTIONS skippedHooksComponent)"
    using assemble_update_position[of exampleHelpers DEFAULT_OPTIONS skippedHooksComponent]
    unfolding rendered sublist_def by (metis append_assoc)
  moreover have "onUpdateString (skippedHooksComponent\<lparr>onUpdate := Some []\<rparr>) = []"
    by (simp add: onUpdateString_def)
  ultimately show ?thesis
    unfolding rendered joined by (simp add: declaresDeps_def example_defs)
qed

text \<open>
  Claim C7, amended. In the assembled module, between the mount hook and the \<^verbatim>\<open>return\<close>,
  stands the text for the update hooks: the fragments of the entries in order, joined by
  line breaks. The fragment of an entry that declares dependencies is its effect
  registration, a function named by the index of the entry and the call of
  \<^verbatim>\<open>createEffect\<close> keyed on the dependencies; the fragment of an entry without dependencies
  is empty, so only the line break of the join stands for it. The fragments that are not
  empty are the registrations of the entries with dependencies, one each and in order.
  The model has no error value here: the source raises none.
\<close>

theorem onUpdate_registrations:
  assumes "onUpdate (renderedComponent h options component) = Some hooks"
  shows \<open>(\<exists>pre post. assemble h options component
            = pre @ ''\<newline>      '' @ join ''\<newline>'' (map hookFragment (enumerate 0 hooks))
              @ ''\<newline>\<newline>      return ('' @ post) \<and>
         filter (\<lambda>s. s \<noteq> []) (map hookFragment (enumerate 0 hooks))
           = map effectRegistration
               (filter (\<lambda>(i, hook). declaresDeps hook) (enumerate 0 hooks))\<close>
proof -
  have "onUpdateString (renderedComponent h options component)
      = join ''\<newline>'' (map hookFragment (enumerate 0 hooks))"
    using assms by (simp add: onUpdateString_def onUpdateToSolid_hookFragment)
  then have \<open>\<exists>pre post. assemble h options component
            = pre @ ''\<newline>      '' @ join ''\<newline>'' (map hookFragment (enumerate 0 hooks))
              @ ''\<newline>\<newline>      return ('' @ post\<close>
    using assemble_update_position[of h options component] by simp
  moreover have "filter (\<lambda>s. s \<noteq> []) (map hookFragment xs)
      = map effectRegistration (filter (\<lambda>(i, hook). declaresDeps hook) xs)" for xs
    by (induction xs) (auto simp: hookFragment_def effectRegistration_nonempty)
  ultimately show ?thesis
    by blast
qed

theorem onUpdate_registrations_witness:
  \<open>sublist
     (''\<newline>      '' @ ''\<newline>\<newline>                    function onUpdateFn_1() { save(a) };\<newline>                    createEffect(on(() => [a], onUpdateFn_1));\<newline>                  '' @ ''\<newline>\<newline>      return ('')
     (assemble exampleHelpers DEFAULT_OPTIONS twoHooksComponent)\<close>
proof -
  have "onUpdate (renderedComponent exampleHelpers DEFAULT_OPTIONS twoHooksComponent)
      = Some [\<lparr>hookCode = ''log()'', deps = None\<rparr>, \<lparr>hookCode = ''save(a)'', deps = Some ''[a]''\<rparr>]"
    by (simp add: renderedComponent_def processDynamicComponents_def beforeDynamicPass_def
        withProviders_def addProviderComponents_def includesChar_def example_defs)
  from onUpdate_registrations[OF this] obtain pre post where
    \<open>assemble exampleHelpers DEFAULT_OPTIONS twoHooksComponent
       = pre @ ''\<newline>      ''
         @ join ''\<newline>'' (map hookFragment (enumerate 0
             [\<lparr>hookCode = ''log()'', deps = None\<rparr>, \<lparr>hookCode = ''save(a)'', deps = Some ''[a]''\<rparr>]))
         @ ''\<newline>\<newline>      return ('' @ post\<close>
    by blast
  moreover have \<open>join ''\<newline>'' (map hookFragment (enumerate 0
             [\<lparr>hookCode = ''log()'', deps = None\<rparr>, \<lparr>hookCode = ''save(a)'', deps = Some ''[a]''\<rparr>]))
      = ''\<newline>\<newline>                    function onUpdateFn_1() { save(a) };\<newline>                    createEffect(on(() => [a], onUpdateFn_1));\<newline>                  ''\<close>
    by (simp add: enumerate_eq_zip hookFragment_def declaresDeps_def effectRegistration_def
        template_def truthy_def string_of_nat.simps digit_def upt_rec)
  ultimately show ?thesis
    unfolding sublist_def by (metis append_assoc)
qed

end
